theory Spec2Isabelle
  imports Complex_Main "HOL-Library.Word"
begin

section \<open>The PID speed controller of opendlv-logic-control-speed\<close>

text \<open>
  The program is one C++ file, \<^verbatim>\<open>src/opendlv-logic-control-speed.cpp\<close>. Its \<^verbatim>\<open>main\<close>
  parses the command line, declares the controller's variables as locals and registers
  three lambdas with the OD4 session: \<^verbatim>\<open>onGroundSpeedReading\<close> and
  \<^verbatim>\<open>onGroundSpeedRequest\<close> (called for every envelope of their message type) and
  \<^verbatim>\<open>atFrequency\<close> (called \<^verbatim>\<open>freq\<close> times per second).

  Conventions of the embedding.
  \<^item> A \<^verbatim>\<open>double\<close> is a \<^typ>\<open>real\<close>: the model covers finite values with exact
    arithmetic. Rounding, overflow to an infinity and NaN are outside it.
  \<^item> The conversion \<^verbatim>\<open>static_cast<float>\<close> of the control value is a parameter
    \<open>static_cast_float\<close> of the model; a \<^verbatim>\<open>float\<close> is a \<^typ>\<open>real\<close> as well.
  \<^item> The locals captured by reference are split in two records: \<open>config\<close>, written
    once by \<^verbatim>\<open>main\<close> before the session exists, and \<open>state\<close>, written by the lambdas.
    The period \<^verbatim>\<open>dt\<close> is passed beside the configuration.
  \<^item> The lambdas run atomically, one after the other, in the order of a list of events.
    The mutexes of the source are therefore not modelled.
  \<^item> \<^verbatim>\<open>od4.send(ar, cluon::time::now(), outputSenderId)\<close> appends the message and its
    sender stamp to the list of sent messages; the time stamp is left out. Printing under
    \<^verbatim>\<open>--verbose\<close> is left out.
\<close>

subsection \<open>Configuration, state and messages\<close>

text \<open>Lines 54-85: the locals that \<^verbatim>\<open>main\<close> computes from the command line.\<close>

record config =
  inputSenderId :: "32 word"
  controlSenderId :: "32 word"
  outputSenderId :: "32 word"
  verbose :: bool
  hasP :: bool
  hasD :: bool
  hasI :: bool
  hasILimit :: bool
  hasOutputLimitMin :: bool
  hasOutputLimitMax :: bool
  p :: real
  d :: real
  i :: real
  iLimit :: real
  outputLimitMin :: real
  outputLimitMax :: real

text \<open>Lines 89-98: the locals that the lambdas write.\<close>

record state =
  integral :: real
  prevError :: real
  hasReading :: bool
  reading :: real
  hasTarget :: bool
  target :: real

text \<open>
  Lines 89-98 initialise \<^verbatim>\<open>integral\<close>, \<^verbatim>\<open>prevError\<close> and the two flags;
  \<^verbatim>\<open>reading\<close> and \<^verbatim>\<open>target\<close> are declared without a value, so the initial state
  takes whatever they hold as \<open>reading0\<close> and \<open>target0\<close>.
\<close>

definition initial :: "real \<Rightarrow> real \<Rightarrow> state" where
  "initial reading0 target0 =
     \<lparr>integral = 0, prevError = 0, hasReading = False, reading = reading0,
      hasTarget = False, target = target0\<rparr>"

text \<open>An envelope as the two data triggers read it: its sender stamp and the ground speed
  of the message it carries.\<close>

record envelope =
  senderStamp :: "32 word"
  groundSpeed :: real

text \<open>\<^verbatim>\<open>opendlv::proxy::ActuationRequest\<close> with the three fields that line 185-188 set.\<close>

record ActuationRequest =
  acceleration :: real
  steering :: real
  isValid :: bool

type_synonym sent = "ActuationRequest \<times> 32 word"

subsection \<open>The data triggers\<close>

text \<open>Lines 103-119.\<close>

definition onGroundSpeedReading :: "config \<Rightarrow> envelope \<Rightarrow> state \<Rightarrow> state" where
  "onGroundSpeedReading c env s =
     (if senderStamp env \<noteq> inputSenderId c then s
      else s\<lparr>reading := groundSpeed env, hasReading := True\<rparr>)"

text \<open>Lines 121-137.\<close>

definition onGroundSpeedRequest :: "config \<Rightarrow> envelope \<Rightarrow> state \<Rightarrow> state" where
  "onGroundSpeedRequest c env s =
     (if senderStamp env \<noteq> controlSenderId c then s
      else s\<lparr>target := groundSpeed env, hasTarget := True\<rparr>)"

subsection \<open>The time trigger\<close>

text \<open>Lines 149-154: the error of this tick.\<close>

definition error_of :: "state \<Rightarrow> real" where
  "error_of s = target s - reading s"

text \<open>Lines 157-159, on the running value of \<^verbatim>\<open>control\<close>.\<close>

definition p_term :: "config \<Rightarrow> real \<Rightarrow> real \<Rightarrow> real" where
  "p_term c error control = (if hasP c then control + p c * error else control)"

text \<open>Lines 161-163. The source divides by \<^verbatim>\<open>dt\<close> without a test; \<^verbatim>\<open>main\<close> never
  passes a zero \<^verbatim>\<open>dt\<close>.\<close>

definition d_term :: "config \<Rightarrow> real \<Rightarrow> real \<Rightarrow> real \<Rightarrow> real \<Rightarrow> real" where
  "d_term c dt prevErr error control =
     (if hasD c then control + d c * (error - prevErr) / dt else control)"

text \<open>Lines 166-173: the new value of \<^verbatim>\<open>integral\<close> when the I term is enabled.\<close>

definition accumulate :: "real \<Rightarrow> real \<Rightarrow> real \<Rightarrow> real" where
  "accumulate dt error integ = integ + error * dt"

definition limit_integral :: "config \<Rightarrow> real \<Rightarrow> real" where
  "limit_integral c integ =
     (if hasILimit c \<and> \<bar>integ\<bar> > iLimit c
      then (if integ > 0 then iLimit c else - iLimit c)
      else integ)"

text \<open>Lines 165-175 on the pair of \<^verbatim>\<open>integral\<close> and \<^verbatim>\<open>control\<close>.\<close>

definition i_term :: "config \<Rightarrow> real \<Rightarrow> real \<Rightarrow> real \<times> real \<Rightarrow> real \<times> real" where
  "i_term c dt error ic =
     (case ic of (integ, control) \<Rightarrow>
        if hasI c
        then (let integ' = limit_integral c (accumulate dt error integ)
              in (integ', control + i c * integ'))
        else (integ, control))"

text \<open>Lines 156-175: \<^verbatim>\<open>integral\<close> and \<^verbatim>\<open>control\<close> after the three terms.\<close>

definition pid :: "config \<Rightarrow> real \<Rightarrow> state \<Rightarrow> real \<times> real" where
  "pid c dt s =
     (let error = error_of s
      in i_term c dt error
           (integral s, d_term c dt (prevError s) error (p_term c error 0)))"

text \<open>Lines 177-179.\<close>

definition limit_min :: "config \<Rightarrow> real \<Rightarrow> real" where
  "limit_min c control =
     (if hasOutputLimitMin c \<and> control < outputLimitMin c then outputLimitMin c
      else control)"

text \<open>Lines 181-183.\<close>

definition limit_max :: "config \<Rightarrow> real \<Rightarrow> real" where
  "limit_max c control =
     (if hasOutputLimitMax c \<and> control < outputLimitMax c then outputLimitMax c
      else control)"

text \<open>The value of \<^verbatim>\<open>control\<close> at line 186, on a tick that passed line 145.\<close>

definition control_of :: "config \<Rightarrow> real \<Rightarrow> state \<Rightarrow> real" where
  "control_of c dt s = limit_max c (limit_min c (snd (pid c dt s)))"

text \<open>
  Lines 139-193. The lambda returns \<^verbatim>\<open>true\<close> on both paths; the model returns the
  state after the call and the messages sent during it. The only captured variable that
  the body assigns is \<^verbatim>\<open>integral\<close>.
\<close>

definition atFrequency ::
    "(real \<Rightarrow> real) \<Rightarrow> config \<Rightarrow> real \<Rightarrow> state \<Rightarrow> state \<times> sent list" where
  "atFrequency static_cast_float c dt s =
     (if \<not> hasReading s \<or> \<not> hasTarget s then (s, [])
      else
        (let control = control_of c dt s;
             ar = \<lparr>acceleration = static_cast_float control, steering = 0,
                   isValid = True\<rparr>
         in (s\<lparr>integral := fst (pid c dt s)\<rparr>, [(ar, outputSenderId c)])))"

subsection \<open>The session\<close>

text \<open>Lines 195-199: what the session calls, and with what.\<close>

datatype event =
  GroundSpeedReading envelope
  | GroundSpeedRequest envelope
  | TimeTrigger

fun dispatch ::
    "(real \<Rightarrow> real) \<Rightarrow> config \<Rightarrow> real \<Rightarrow> state \<Rightarrow> event \<Rightarrow> state \<times> sent list" where
  "dispatch cast c dt s (GroundSpeedReading env) = (onGroundSpeedReading c env s, [])"
| "dispatch cast c dt s (GroundSpeedRequest env) = (onGroundSpeedRequest c env s, [])"
| "dispatch cast c dt s TimeTrigger = atFrequency cast c dt s"

fun run ::
    "(real \<Rightarrow> real) \<Rightarrow> config \<Rightarrow> real \<Rightarrow> state \<Rightarrow> event list \<Rightarrow> state \<times> sent list" where
  "run cast c dt s [] = (s, [])"
| "run cast c dt s (e # es) =
     (case dispatch cast c dt s e of (s', out) \<Rightarrow>
        (case run cast c dt s' es of (s'', out') \<Rightarrow> (s'', out @ out')))"

section \<open>Start-up\<close>

text \<open>
  Lines 27-87. \<^verbatim>\<open>cluon::getCommandlineArguments\<close> turns \<^verbatim>\<open>argv\<close> into a map from
  argument names to their texts; the model starts from that map. \<^verbatim>\<open>std::stoi\<close> and
  \<^verbatim>\<open>std::stod\<close> throw on a text they cannot convert, and \<^verbatim>\<open>main\<close> catches nothing.
\<close>

datatype error = invalid_argument | out_of_range

text \<open>\<^verbatim>\<open>std::stoi\<close> with its default base 10: white space, an optional sign, then the
  longest run of digits; the value has to fit a 32-bit \<^verbatim>\<open>int\<close>.\<close>

definition isspace :: "char \<Rightarrow> bool" where
  "isspace ch \<longleftrightarrow>
     ch = CHR '' '' \<or> (9 \<le> (of_char ch :: nat) \<and> (of_char ch :: nat) \<le> 13)"

definition isdigit :: "char \<Rightarrow> bool" where
  "isdigit ch \<longleftrightarrow> 48 \<le> (of_char ch :: nat) \<and> (of_char ch :: nat) \<le> 57"

definition digit_value :: "char \<Rightarrow> int" where
  "digit_value ch = int (of_char ch) - 48"

definition stoi :: "string \<Rightarrow> error + int" where
  "stoi str =
     (let unspaced = dropWhile isspace str;
          negative = (case unspaced of ch # _ \<Rightarrow> ch = CHR ''-'' | [] \<Rightarrow> False);
          unsigned = (case unspaced of
                        ch # rest \<Rightarrow>
                          if ch = CHR ''-'' \<or> ch = CHR ''+'' then rest else unspaced
                      | [] \<Rightarrow> []);
          digits = takeWhile isdigit unsigned;
          magnitude = foldl (\<lambda>acc ch. 10 * acc + digit_value ch) 0 digits;
          result = (if negative then - magnitude else magnitude)
      in if digits = [] then Inl invalid_argument
         else if result < - (2 ^ 31) \<or> 2 ^ 31 - 1 < result then Inl out_of_range
         else Inr result)"

text \<open>Lines 54-65: a sender id is 0 when its argument is absent.\<close>

definition sender_id :: "(string \<rightharpoonup> string) \<Rightarrow> string \<Rightarrow> error + 32 word" where
  "sender_id args key =
     (case args key of
        None \<Rightarrow> Inr 0
      | Some str \<Rightarrow> (case stoi str of Inl e \<Rightarrow> Inl e | Inr v \<Rightarrow> Inr (word_of_int v)))"

text \<open>Lines 78-85: a gain or limit is 0 when its argument is absent. \<^verbatim>\<open>std::stod\<close> is
  a parameter of the model.\<close>

definition gain ::
    "(string \<Rightarrow> error + real) \<Rightarrow> (string \<rightharpoonup> string) \<Rightarrow> string \<Rightarrow> error + real" where
  "gain stod args key = (case args key of None \<Rightarrow> Inr 0 | Some str \<Rightarrow> stod str)"

text \<open>
  Line 87, \<^verbatim>\<open>double const dt = 1.0 / freq\<close> with \<^verbatim>\<open>freq\<close> of type \<^verbatim>\<open>uint32_t\<close>. For
  \<^verbatim>\<open>freq = 0\<close> the quotient of the source is the IEEE infinity, which is no
  \<^typ>\<open>real\<close>; the model names it.
\<close>

datatype dt_value = Dt real | DtInfinity

definition dt_of :: "32 word \<Rightarrow> dt_value" where
  "dt_of freq = (if freq = 0 then DtInfinity else Dt (1 / real (unat freq)))"

text \<open>
  What \<^verbatim>\<open>main\<close> does: \<open>Usage\<close> is lines 33-47 (the usage text, return code 1, no
  session); \<open>Uncaught\<close> is an exception leaving \<^verbatim>\<open>main\<close>; \<open>Started\<close> is line 199
  reached, that is \<^verbatim>\<open>od4.timeTrigger(freq, atFrequency)\<close> called on a session of
  the given \<^verbatim>\<open>cid\<close>, with the locals as given.
\<close>

datatype outcome =
  Usage
  | Uncaught error
  | Started (session_cid: "16 word") (loop_freq: "32 word") (loop_config: config)
      (loop_dt: dt_value)

text \<open>Lines 28, 47 and 201: the value \<^verbatim>\<open>main\<close> returns, when it returns.\<close>

definition retCode :: "outcome \<Rightarrow> int option" where
  "retCode out =
     (case out of Usage \<Rightarrow> Some 1 | Uncaught e \<Rightarrow> None | Started _ _ _ _ \<Rightarrow> Some 0)"

definition started :: "outcome \<Rightarrow> bool" where
  "started out = (case out of Started _ _ _ _ \<Rightarrow> True | _ \<Rightarrow> False)"

definition or_throw :: "error + 'a \<Rightarrow> ('a \<Rightarrow> outcome) \<Rightarrow> outcome" where
  "or_throw r k = (case r of Inl e \<Rightarrow> Uncaught e | Inr v \<Rightarrow> k v)"

definition main :: "(string \<Rightarrow> error + real) \<Rightarrow> (string \<rightharpoonup> string) \<Rightarrow> outcome" where
  "main stod args =
     (case (args ''cid'', args ''freq'') of
        (Some cidText, Some freqText) \<Rightarrow>
          or_throw (stoi cidText) (\<lambda>cidInt.
          or_throw (stoi freqText) (\<lambda>freqInt.
          or_throw (sender_id args ''input-sender-id'') (\<lambda>inputId.
          or_throw (sender_id args ''control-sender-id'') (\<lambda>controlId.
          or_throw (sender_id args ''output-sender-id'') (\<lambda>outputId.
          or_throw (gain stod args ''p'') (\<lambda>pv.
          or_throw (gain stod args ''d'') (\<lambda>dv.
          or_throw (gain stod args ''i'') (\<lambda>iv.
          or_throw (gain stod args ''i-limit'') (\<lambda>iLimitv.
          or_throw (gain stod args ''output-limit-min'') (\<lambda>minv.
          or_throw (gain stod args ''output-limit-max'') (\<lambda>maxv.
            Started (word_of_int cidInt) (word_of_int freqInt)
              \<lparr>inputSenderId = inputId, controlSenderId = controlId,
               outputSenderId = outputId,
               verbose = (args ''verbose'' \<noteq> None),
               hasP = (args ''p'' \<noteq> None),
               hasD = (args ''d'' \<noteq> None),
               hasI = (args ''i'' \<noteq> None),
               hasILimit = (args ''i-limit'' \<noteq> None),
               hasOutputLimitMin = (args ''output-limit-min'' \<noteq> None),
               hasOutputLimitMax = (args ''output-limit-max'' \<noteq> None),
               p = pv, d = dv, i = iv, iLimit = iLimitv,
               outputLimitMin = minv, outputLimitMax = maxv\<rparr>
              (dt_of (word_of_int freqInt)))))))))))))
      | _ \<Rightarrow> Usage)"

text \<open>The configuration of a command line that gives \<^verbatim>\<open>--cid\<close> and \<^verbatim>\<open>--freq\<close>
  only: every flag of lines 66-76 is false, every number of lines 54-85 is 0.\<close>

definition defaults :: config where
  "defaults =
     \<lparr>inputSenderId = 0, controlSenderId = 0, outputSenderId = 0, verbose = False,
      hasP = False, hasD = False, hasI = False, hasILimit = False,
      hasOutputLimitMin = False, hasOutputLimitMax = False,
      p = 0, d = 0, i = 0, iLimit = 0, outputLimitMin = 0, outputLimitMax = 0\<rparr>"

text \<open>No conversion of lines 49-85 throws: every integer argument that is given converts
  with \<^verbatim>\<open>std::stoi\<close>, every gain or limit that is given converts with \<^verbatim>\<open>std::stod\<close>.\<close>

definition converts :: "(string \<Rightarrow> error + 'a) \<Rightarrow> (string \<rightharpoonup> string) \<Rightarrow> string \<Rightarrow> bool" where
  "converts conv args key = (case args key of None \<Rightarrow> True | Some str \<Rightarrow> \<not> isl (conv str))"

definition numbers_convert :: "(string \<Rightarrow> error + real) \<Rightarrow> (string \<rightharpoonup> string) \<Rightarrow> bool" where
  "numbers_convert stod args \<longleftrightarrow>
     list_all (converts stoi args)
       [''cid'', ''freq'', ''input-sender-id'', ''control-sender-id'', ''output-sender-id'']
     \<and> list_all (converts stod args)
       [''p'', ''d'', ''i'', ''i-limit'', ''output-limit-min'', ''output-limit-max'']"

section \<open>Deliveries\<close>

text \<open>An envelope is delivered to the controller when its handler stores the value, that
  is when its sender stamp is the configured one.\<close>

definition accepted_reading :: "config \<Rightarrow> event \<Rightarrow> bool" where
  "accepted_reading c e =
     (case e of GroundSpeedReading env \<Rightarrow> senderStamp env = inputSenderId c | _ \<Rightarrow> False)"

definition accepted_request :: "config \<Rightarrow> event \<Rightarrow> bool" where
  "accepted_request c e =
     (case e of GroundSpeedRequest env \<Rightarrow> senderStamp env = controlSenderId c | _ \<Rightarrow> False)"

text \<open>The state once a reading \<open>r\<close> and a target \<open>t\<close> have been stored and no tick has
  passed line 145 yet.\<close>

definition delivered :: "real \<Rightarrow> real \<Rightarrow> state" where
  "delivered r t =
     \<lparr>integral = 0, prevError = 0, hasReading = True, reading = r,
      hasTarget = True, target = t\<rparr>"

section \<open>Auxiliary facts\<close>

subsection \<open>One call of the time trigger\<close>

lemma atFrequency_ready:
  "hasReading s \<Longrightarrow> hasTarget s \<Longrightarrow>
     atFrequency cast c dt s =
       (s\<lparr>integral := fst (pid c dt s)\<rparr>,
        [(\<lparr>acceleration = cast (control_of c dt s), steering = 0, isValid = True\<rparr>,
          outputSenderId c)])"
  by (simp add: atFrequency_def Let_def)

lemma atFrequency_not_ready:
  "\<not> hasReading s \<or> \<not> hasTarget s \<Longrightarrow> atFrequency cast c dt s = (s, [])"
  by (simp add: atFrequency_def)

lemma pid_integral_disabled: "\<not> hasI c \<Longrightarrow> fst (pid c dt s) = integral s"
  by (simp add: pid_def i_term_def Let_def)

lemma pid_integral_enabled:
  "hasI c \<Longrightarrow>
     fst (pid c dt s) = limit_integral c (accumulate dt (error_of s) (integral s))"
  by (simp add: pid_def i_term_def Let_def)

lemma limit_max_lower: "hasOutputLimitMax c \<Longrightarrow> outputLimitMax c \<le> limit_max c x"
  by (simp add: limit_max_def)

text \<open>What lines 177-183 make of a control value below the configured minimum.\<close>

lemma control_below_minimum:
  "hasOutputLimitMin c \<Longrightarrow> snd (pid c dt s) < outputLimitMin c \<Longrightarrow>
     control_of c dt s =
       (if hasOutputLimitMax c \<and> outputLimitMin c < outputLimitMax c
        then outputLimitMax c else outputLimitMin c)"
  by (simp add: control_of_def limit_min_def limit_max_def)

lemmas tick_simps = atFrequency_def control_of_def pid_def i_term_def d_term_def p_term_def
  error_of_def limit_min_def limit_max_def limit_integral_def accumulate_def
  onGroundSpeedReading_def onGroundSpeedRequest_def Let_def

text \<open>No handler assigns \<^verbatim>\<open>prevError\<close>: it keeps its initial value for the whole run.\<close>

lemma dispatch_keeps_prevError:
  "prevError (fst (dispatch cast c dt s e)) = prevError s"
  by (cases e)
     (simp_all add: onGroundSpeedReading_def onGroundSpeedRequest_def atFrequency_def
        Let_def)

lemma run_keeps_prevError: "prevError (fst (run cast c dt s es)) = prevError s"
proof (induction es arbitrary: s)
  case Nil
  show ?case by simp
next
  case (Cons e es)
  have "prevError (fst (run cast c dt (fst (dispatch cast c dt s e)) es))
          = prevError (fst (dispatch cast c dt s e))"
    by (rule Cons.IH)
  then show ?case
    by (simp add: dispatch_keeps_prevError split: prod.splits)
       (metis dispatch_keeps_prevError fst_conv)
qed

subsection \<open>Runs\<close>

lemma run_append:
  "run cast c dt s (xs @ ys) =
     (case run cast c dt s xs of (s', out) \<Rightarrow>
        (case run cast c dt s' ys of (s'', out') \<Rightarrow> (s'', out @ out')))"
  by (induction xs arbitrary: s) (simp_all split: prod.splits)

lemma dispatch_rejected:
  "\<not> accepted_reading c e \<Longrightarrow> \<not> accepted_request c e \<Longrightarrow>
   \<not> hasReading s \<or> \<not> hasTarget s \<Longrightarrow> dispatch cast c dt s e = (s, [])"
  by (cases e)
     (simp_all add: accepted_reading_def accepted_request_def onGroundSpeedReading_def
        onGroundSpeedRequest_def atFrequency_not_ready)

lemma run_idle:
  "\<not> hasReading s \<or> \<not> hasTarget s \<Longrightarrow>
   \<forall>e\<in>set es. \<not> accepted_reading c e \<and> \<not> accepted_request c e \<Longrightarrow>
     run cast c dt s es = (s, [])"
  by (induction es) (simp_all add: dispatch_rejected)

lemma dispatch_without_reading:
  "\<not> hasReading s \<Longrightarrow> \<not> accepted_reading c e \<Longrightarrow>
     snd (dispatch cast c dt s e) = [] \<and> \<not> hasReading (fst (dispatch cast c dt s e))"
  by (cases e)
     (simp_all add: accepted_reading_def onGroundSpeedReading_def
        onGroundSpeedRequest_def atFrequency_not_ready)

lemma dispatch_without_request:
  "\<not> hasTarget s \<Longrightarrow> \<not> accepted_request c e \<Longrightarrow>
     snd (dispatch cast c dt s e) = [] \<and> \<not> hasTarget (fst (dispatch cast c dt s e))"
  by (cases e)
     (simp_all add: accepted_request_def onGroundSpeedReading_def
        onGroundSpeedRequest_def atFrequency_not_ready)

lemma run_without_reading:
  "\<not> hasReading s \<Longrightarrow> \<forall>e\<in>set es. \<not> accepted_reading c e \<Longrightarrow>
     snd (run cast c dt s es) = []"
proof (induction es arbitrary: s)
  case Nil
  show ?case by simp
next
  case (Cons e es)
  obtain s' out where step: "dispatch cast c dt s e = (s', out)"
    by (cases "dispatch cast c dt s e")
  from Cons.prems have "out = []" and "\<not> hasReading s'"
    using dispatch_without_reading [of s c e cast dt] step by simp_all
  moreover from Cons.prems have "\<forall>e\<in>set es. \<not> accepted_reading c e" by simp
  ultimately have "snd (run cast c dt s' es) = []" using Cons.IH by blast
  with step \<open>out = []\<close> show ?case by (simp split: prod.splits)
qed

lemma run_without_request:
  "\<not> hasTarget s \<Longrightarrow> \<forall>e\<in>set es. \<not> accepted_request c e \<Longrightarrow>
     snd (run cast c dt s es) = []"
proof (induction es arbitrary: s)
  case Nil
  show ?case by simp
next
  case (Cons e es)
  obtain s' out where step: "dispatch cast c dt s e = (s', out)"
    by (cases "dispatch cast c dt s e")
  from Cons.prems have "out = []" and "\<not> hasTarget s'"
    using dispatch_without_request [of s c e cast dt] step by simp_all
  moreover from Cons.prems have "\<forall>e\<in>set es. \<not> accepted_request c e" by simp
  ultimately have "snd (run cast c dt s' es) = []" using Cons.IH by blast
  with step \<open>out = []\<close> show ?case by (simp split: prod.splits)
qed

text \<open>The first tick after the second of the two deliveries is a tick on \<open>delivered\<close>.\<close>

lemma first_tick_after_both:
  assumes quiet: "\<forall>e\<in>set es1 \<union> set es2. \<not> accepted_reading c e \<and> \<not> accepted_request c e"
    and stamps: "senderStamp rd = inputSenderId c" "senderStamp rq = controlSenderId c"
    and order: "(m1 = GroundSpeedReading rd \<and> m2 = GroundSpeedRequest rq)
                \<or> (m1 = GroundSpeedRequest rq \<and> m2 = GroundSpeedReading rd)"
  shows "run cast c dt (initial reading0 target0) (es1 @ [m1] @ es2 @ [m2] @ [TimeTrigger]) =
           atFrequency cast c dt (delivered (groundSpeed rd) (groundSpeed rq))"
proof -
  let ?s0 = "initial reading0 target0"
  have r1: "run cast c dt ?s0 es1 = (?s0, [])"
    using quiet by (intro run_idle) (simp_all add: initial_def)
  from order show ?thesis
  proof
    assume o: "m1 = GroundSpeedReading rd \<and> m2 = GroundSpeedRequest rq"
    let ?s1 = "onGroundSpeedReading c rd ?s0"
    have "run cast c dt ?s1 es2 = (?s1, [])"
      using quiet by (intro run_idle) (simp_all add: initial_def onGroundSpeedReading_def)
    with r1 o stamps show ?thesis
      by (simp add: run_append onGroundSpeedReading_def onGroundSpeedRequest_def
            initial_def delivered_def split: prod.splits)
  next
    assume o: "m1 = GroundSpeedRequest rq \<and> m2 = GroundSpeedReading rd"
    let ?s1 = "onGroundSpeedRequest c rq ?s0"
    have "run cast c dt ?s1 es2 = (?s1, [])"
      using quiet by (intro run_idle) (simp_all add: initial_def onGroundSpeedRequest_def)
    with r1 o stamps show ?thesis
      by (simp add: run_append onGroundSpeedReading_def onGroundSpeedRequest_def
            initial_def delivered_def split: prod.splits)
  qed
qed

text \<open>With an output maximum configured, line 181-183 is the larger of the maximum and
  the value it is given, and no message of a run carries less than the converted
  maximum when the conversion to \<^verbatim>\<open>float\<close> is monotone.\<close>

lemma limit_max_is_max:
  "hasOutputLimitMax c \<Longrightarrow> limit_max c x = max (outputLimitMax c) x"
  by (simp add: limit_max_def max_def)

lemma dispatch_sent_at_least_max:
  assumes "hasOutputLimitMax c" and "mono cast"
  shows "\<forall>m\<in>set (snd (dispatch cast c dt s e)).
           cast (outputLimitMax c) \<le> acceleration (fst m)"
proof (cases e)
  case TimeTrigger
  have "outputLimitMax c \<le> control_of c dt s"
    using assms(1) by (simp add: control_of_def limit_max_lower)
  with assms(2) have "cast (outputLimitMax c) \<le> cast (control_of c dt s)"
    by (rule monoD)
  with TimeTrigger show ?thesis by (simp add: atFrequency_def Let_def)
qed simp_all

lemma run_sent_at_least_max:
  assumes "hasOutputLimitMax c" and "mono cast"
  shows "\<forall>m\<in>set (snd (run cast c dt s es)).
           cast (outputLimitMax c) \<le> acceleration (fst m)"
proof (induction es arbitrary: s)
  case Nil
  show ?case by simp
next
  case (Cons e es)
  obtain s' out where step: "dispatch cast c dt s e = (s', out)"
    by (cases "dispatch cast c dt s e")
  obtain s'' out' where rest: "run cast c dt s' es = (s'', out')"
    by (cases "run cast c dt s' es")
  have "\<forall>m\<in>set out. cast (outputLimitMax c) \<le> acceleration (fst m)"
    using dispatch_sent_at_least_max [OF assms, of dt s e] step by simp
  moreover have "\<forall>m\<in>set out'. cast (outputLimitMax c) \<le> acceleration (fst m)"
    using Cons.IH [of s'] rest by simp
  ultimately show ?case using step rest by auto
qed

subsection \<open>Start-up\<close>

lemmas stoi_simps = stoi_def isspace_def isdigit_def digit_value_def

lemma or_throw_Inr: "or_throw (Inr v) k = k v"
  by (simp add: or_throw_def)

lemma or_throw_not_Usage: "(\<And>v. k v \<noteq> Usage) \<Longrightarrow> or_throw r k \<noteq> Usage"
  by (cases r) (simp_all add: or_throw_def)

lemma main_Usage_iff:
  "main stod args = Usage \<longleftrightarrow> args ''cid'' = None \<or> args ''freq'' = None"
proof (cases "args ''cid''")
  case None
  then show ?thesis by (simp add: main_def)
next
  case cid: (Some cidText)
  show ?thesis
  proof (cases "args ''freq''")
    case None
    with cid show ?thesis by (simp add: main_def)
  next
    case (Some freqText)
    with cid have "main stod args \<noteq> Usage"
      by (simp add: main_def) (intro or_throw_not_Usage, simp)
    with cid Some show ?thesis by simp
  qed
qed

lemma not_isl_Inr: "\<not> isl r \<Longrightarrow> \<exists>x. r = Inr x"
  by (cases r) simp_all

lemma converts_sender_id:
  "converts stoi args key \<Longrightarrow> \<exists>w. sender_id args key = Inr w"
  by (auto simp: converts_def sender_id_def split: option.splits sum.splits)

lemma converts_gain:
  "converts stod args key \<Longrightarrow> \<exists>x. gain stod args key = Inr x"
  by (auto simp: converts_def gain_def not_isl_Inr split: option.splits)

lemma main_Started:
  assumes cid: "args ''cid'' \<noteq> None"
    and freq: "args ''freq'' = Some freqText" "stoi freqText = Inr n"
    and conv: "numbers_convert stod args"
  shows "started (main stod args)
         \<and> loop_freq (main stod args) = word_of_int n
         \<and> loop_dt (main stod args) = dt_of (word_of_int n)"
proof -
  from cid obtain cidText where cidText: "args ''cid'' = Some cidText" by blast
  from conv cidText obtain cidInt where cidInt: "stoi cidText = Inr cidInt"
    by (cases "stoi cidText") (simp_all add: numbers_convert_def converts_def)
  from conv obtain inputId where a1: "sender_id args ''input-sender-id'' = Inr inputId"
    using converts_sender_id [of args "''input-sender-id''"]
    by (auto simp: numbers_convert_def)
  from conv obtain controlId where a2: "sender_id args ''control-sender-id'' = Inr controlId"
    using converts_sender_id [of args "''control-sender-id''"]
    by (auto simp: numbers_convert_def)
  from conv obtain outputId where a3: "sender_id args ''output-sender-id'' = Inr outputId"
    using converts_sender_id [of args "''output-sender-id''"]
    by (auto simp: numbers_convert_def)
  from conv obtain pv where b1: "gain stod args ''p'' = Inr pv"
    using converts_gain [of stod args "''p''"] by (auto simp: numbers_convert_def)
  from conv obtain dv where b2: "gain stod args ''d'' = Inr dv"
    using converts_gain [of stod args "''d''"] by (auto simp: numbers_convert_def)
  from conv obtain iv where b3: "gain stod args ''i'' = Inr iv"
    using converts_gain [of stod args "''i''"] by (auto simp: numbers_convert_def)
  from conv obtain lv where b4: "gain stod args ''i-limit'' = Inr lv"
    using converts_gain [of stod args "''i-limit''"] by (auto simp: numbers_convert_def)
  from conv obtain minv where b5: "gain stod args ''output-limit-min'' = Inr minv"
    using converts_gain [of stod args "''output-limit-min''"]
    by (auto simp: numbers_convert_def)
  from conv obtain maxv where b6: "gain stod args ''output-limit-max'' = Inr maxv"
    using converts_gain [of stod args "''output-limit-max''"]
    by (auto simp: numbers_convert_def)
  show ?thesis
    by (simp add: main_def cidText cidInt freq a1 a2 a3 b1 b2 b3 b4 b5 b6 or_throw_Inr
          started_def)
qed

lemma retCode_Usage: "retCode out = Some 1 \<longleftrightarrow> out = Usage"
  by (cases out) (simp_all add: retCode_def)

section \<open>The claims\<close>

text \<open>
  In the closed examples below the conversion to \<^verbatim>\<open>float\<close> is the identity: every
  control value in them is an integer of small magnitude, which binary32 holds exactly.
\<close>

subsection \<open>C1: the derivative term and \<^verbatim>\<open>prevError\<close>\<close>

text \<open>
  C1. The claim: after every tick that evaluates the control law, \<^verbatim>\<open>prevError\<close> is the
  error of that tick, so that with the D term alone (gain \<open>k\<close>, period \<open>dt\<close>) and errors
  \<open>e0\<close> then \<open>e1\<close> on two consecutive ready ticks the second tick outputs
  \<open>k * (e1 - e0) / dt\<close>. The source reads \<^verbatim>\<open>prevError\<close> at line 162 and assigns it
  nowhere, so it is 0 on every tick. Evaluated with \<open>k = 1\<close>, \<open>dt = 1\<close>, a reading of 0
  and targets 1 then 3: the errors are 1 then 3, the second tick sends
  \<open>3 = 1 * (3 - 0) / 1\<close> where the claim gives \<open>2 = 1 * (3 - 1) / 1\<close>, and \<^verbatim>\<open>prevError\<close>
  is 0 after both ticks.
\<close>

theorem derivative_uses_initial_prevError:
  "run id (defaults\<lparr>hasD := True, d := 1\<rparr>) 1 (initial 0 0)
     [GroundSpeedReading \<lparr>senderStamp = 0, groundSpeed = 0\<rparr>,
      GroundSpeedRequest \<lparr>senderStamp = 0, groundSpeed = 1\<rparr>,
      TimeTrigger,
      GroundSpeedRequest \<lparr>senderStamp = 0, groundSpeed = 3\<rparr>,
      TimeTrigger]
   = (\<lparr>integral = 0, prevError = 0, hasReading = True, reading = 0,
       hasTarget = True, target = 3\<rparr>,
      [(\<lparr>acceleration = 1, steering = 0, isValid = True\<rparr>, 0),
       (\<lparr>acceleration = 3, steering = 0, isValid = True\<rparr>, 0)])"
  by (simp add: tick_simps defaults_def initial_def)

subsection \<open>C2: when the maximum branch is taken\<close>

text \<open>
  C2. On a ready tick with an output maximum configured, let \<open>control\<close> be the value
  after the minimum clamp of lines 177-179. If \<open>control < outputLimitMax\<close>, the value
  sent is \<open>outputLimitMax\<close>; if \<open>control \<ge> outputLimitMax\<close>, the value sent is
  \<open>control\<close>, unchanged.
\<close>

theorem limit_max_branch:
  "hasReading s \<Longrightarrow> hasTarget s \<Longrightarrow> hasOutputLimitMax c \<Longrightarrow>
     (let control = limit_min c (snd (pid c dt s))
      in (control < outputLimitMax c \<longrightarrow> control_of c dt s = outputLimitMax c)
         \<and> (outputLimitMax c \<le> control \<longrightarrow> control_of c dt s = control))
     \<and> snd (atFrequency cast c dt s) =
         [(\<lparr>acceleration = cast (control_of c dt s), steering = 0, isValid = True\<rparr>,
           outputSenderId c)]"
  by (simp add: atFrequency_ready control_of_def limit_max_def Let_def)

text \<open>P term with gain 1, maximum 5, reading 10 and target 12: the control value 2 is
  below the maximum, and 5 is sent.\<close>

theorem limit_max_branch_witness:
  "hasReading (delivered 10 12) \<and> hasTarget (delivered 10 12)
   \<and> hasOutputLimitMax
       (defaults\<lparr>hasP := True, p := 1, hasOutputLimitMax := True, outputLimitMax := 5\<rparr>)
   \<and> limit_min
       (defaults\<lparr>hasP := True, p := 1, hasOutputLimitMax := True, outputLimitMax := 5\<rparr>)
       (snd (pid
          (defaults\<lparr>hasP := True, p := 1, hasOutputLimitMax := True, outputLimitMax := 5\<rparr>)
          (1 / 50) (delivered 10 12))) = 2
   \<and> control_of
       (defaults\<lparr>hasP := True, p := 1, hasOutputLimitMax := True, outputLimitMax := 5\<rparr>)
       (1 / 50) (delivered 10 12) = 5
   \<and> snd (atFrequency id
       (defaults\<lparr>hasP := True, p := 1, hasOutputLimitMax := True, outputLimitMax := 5\<rparr>)
       (1 / 50) (delivered 10 12)) =
       [(\<lparr>acceleration = 5, steering = 0, isValid = True\<rparr>, 0)]"
  using limit_max_branch
    [of "delivered 10 12"
        "defaults\<lparr>hasP := True, p := 1, hasOutputLimitMax := True, outputLimitMax := 5\<rparr>"
        "1 / 50" id]
  by (simp add: delivered_def defaults_def Let_def pid_def i_term_def d_term_def
        p_term_def error_of_def limit_min_def)

subsection \<open>C3: the frequency at start-up\<close>

text \<open>
  The claim of C3 is that a frequency of zero or less is rejected before the loop starts.
  It is not: \<^verbatim>\<open>--freq=0\<close> starts the loop with \<^verbatim>\<open>freq = 0\<close> and an infinite
  \<^verbatim>\<open>dt\<close>, and \<^verbatim>\<open>--freq=-1\<close> starts it with \<^verbatim>\<open>freq = 4294967295\<close> and
  \<^verbatim>\<open>dt = 1 / 4294967295\<close>. No gain is given here, so \<^verbatim>\<open>std::stod\<close> is not called.
\<close>

theorem main_accepts_nonpositive_freq:
  "main (\<lambda>str. Inl invalid_argument) [''cid'' \<mapsto> ''111'', ''freq'' \<mapsto> ''0'']
     = Started 111 0 defaults DtInfinity
   \<and> main (\<lambda>str. Inl invalid_argument) [''cid'' \<mapsto> ''111'', ''freq'' \<mapsto> ''-1'']
     = Started 111 4294967295 defaults (Dt (1 / 4294967295))"
proof -
  have u: "unat (- 1 :: 32 word) = 4294967295"
    by (simp add: unsigned_minus_1_eq_mask mask_eq_exp_minus_1)
  show ?thesis
    by (simp add: main_def or_throw_def sender_id_def gain_def dt_of_def stoi_simps
          defaults_def u)
qed

text \<open>
  C3, as the code has it. \<^verbatim>\<open>main\<close> returns 1 without starting anything exactly when
  \<^verbatim>\<open>--cid\<close> or \<^verbatim>\<open>--freq\<close> is missing. The value of the frequency is not tested:
  when both are given, the frequency converts to the integer \<open>n\<close> and no conversion
  throws, \<^verbatim>\<open>main\<close> reaches the loop with \<^verbatim>\<open>freq\<close> the 32-bit unsigned value of
  \<open>n\<close> and \<^verbatim>\<open>dt = 1.0 / freq\<close>, whatever the sign of \<open>n\<close>.
\<close>

theorem main_checks_presence_only:
  "(main stod args = Usage \<longleftrightarrow> args ''cid'' = None \<or> args ''freq'' = None)
   \<and> (retCode (main stod args) = Some 1 \<longleftrightarrow> args ''cid'' = None \<or> args ''freq'' = None)
   \<and> (args ''cid'' \<noteq> None \<and> args ''freq'' = Some freqText \<and> stoi freqText = Inr n
        \<and> numbers_convert stod args \<longrightarrow>
      started (main stod args)
      \<and> loop_freq (main stod args) = word_of_int n
      \<and> loop_dt (main stod args) = dt_of (word_of_int n))"
proof -
  have usage: "main stod args = Usage \<longleftrightarrow> args ''cid'' = None \<or> args ''freq'' = None"
    by (rule main_Usage_iff)
  have code: "retCode (main stod args) = Some 1 \<longleftrightarrow> args ''cid'' = None \<or> args ''freq'' = None"
    by (simp only: retCode_Usage usage)
  have loop: "args ''cid'' \<noteq> None \<and> args ''freq'' = Some freqText \<and> stoi freqText = Inr n
        \<and> numbers_convert stod args \<longrightarrow>
      started (main stod args)
      \<and> loop_freq (main stod args) = word_of_int n
      \<and> loop_dt (main stod args) = dt_of (word_of_int n)"
  proof
    assume "args ''cid'' \<noteq> None \<and> args ''freq'' = Some freqText \<and> stoi freqText = Inr n
        \<and> numbers_convert stod args"
    then have "args ''cid'' \<noteq> None" and "args ''freq'' = Some freqText"
      and "stoi freqText = Inr n" and "numbers_convert stod args"
      by simp_all
    then show "started (main stod args)
      \<and> loop_freq (main stod args) = word_of_int n
      \<and> loop_dt (main stod args) = dt_of (word_of_int n)"
      by (rule main_Started)
  qed
  from usage code loop show ?thesis by (intro conjI)
qed

text \<open>\<^verbatim>\<open>--cid=111 --freq=-50\<close>: the loop starts with \<^verbatim>\<open>freq = 4294967246\<close>.\<close>

theorem main_checks_presence_only_witness:
  "(main (\<lambda>str. Inl invalid_argument) [''cid'' \<mapsto> ''111'', ''freq'' \<mapsto> ''-50''] = Usage
      \<longleftrightarrow> [''cid'' \<mapsto> ''111'', ''freq'' \<mapsto> ''-50''] ''cid'' = None
          \<or> [''cid'' \<mapsto> ''111'', ''freq'' \<mapsto> ''-50''] ''freq'' = None)
   \<and> (retCode (main (\<lambda>str. Inl invalid_argument) [''cid'' \<mapsto> ''111'', ''freq'' \<mapsto> ''-50''])
        = Some 1
      \<longleftrightarrow> [''cid'' \<mapsto> ''111'', ''freq'' \<mapsto> ''-50''] ''cid'' = None
          \<or> [''cid'' \<mapsto> ''111'', ''freq'' \<mapsto> ''-50''] ''freq'' = None)
   \<and> [''cid'' \<mapsto> ''111'', ''freq'' \<mapsto> ''-50''] ''cid'' \<noteq> None
   \<and> [''cid'' \<mapsto> ''111'', ''freq'' \<mapsto> ''-50''] ''freq'' = Some ''-50''
   \<and> stoi ''-50'' = Inr (- 50)
   \<and> numbers_convert (\<lambda>str. Inl invalid_argument) [''cid'' \<mapsto> ''111'', ''freq'' \<mapsto> ''-50'']
   \<and> started (main (\<lambda>str. Inl invalid_argument) [''cid'' \<mapsto> ''111'', ''freq'' \<mapsto> ''-50''])
   \<and> loop_freq (main (\<lambda>str. Inl invalid_argument) [''cid'' \<mapsto> ''111'', ''freq'' \<mapsto> ''-50''])
       = 4294967246
   \<and> loop_dt (main (\<lambda>str. Inl invalid_argument) [''cid'' \<mapsto> ''111'', ''freq'' \<mapsto> ''-50''])
       = Dt (1 / 4294967246)"
proof -
  let ?stod = "\<lambda>str :: string. Inl invalid_argument :: error + real"
  let ?args = "[''cid'' \<mapsto> ''111'', ''freq'' \<mapsto> ''-50'']"
  note claim = main_checks_presence_only [of ?stod ?args "''-50''" "- 50"]
  have conv: "stoi ''-50'' = Inr (- 50)" "stoi ''111'' = Inr 111"
    by (simp_all add: stoi_simps)
  have given: "numbers_convert ?stod ?args"
    by (simp add: numbers_convert_def converts_def conv)
  have hyp: "?args ''cid'' \<noteq> None \<and> ?args ''freq'' = Some ''-50''
             \<and> stoi ''-50'' = Inr (- 50) \<and> numbers_convert ?stod ?args"
    using conv given by simp
  have w: "(word_of_int (- 50) :: 32 word) = 4294967246" by simp
  have u: "unat (4294967246 :: 32 word) = 4294967246" by simp
  have dtv: "dt_of (4294967246 :: 32 word) = Dt (1 / 4294967246)"
    by (simp add: dt_of_def u)
  from claim [THEN conjunct2, THEN conjunct2] hyp
  have loop: "started (main ?stod ?args)
      \<and> loop_freq (main ?stod ?args) = word_of_int (- 50)
      \<and> loop_dt (main ?stod ?args) = dt_of (word_of_int (- 50))"
    by (rule mp)
  note usage = claim [THEN conjunct1]
  note code = claim [THEN conjunct2, THEN conjunct1]
  from loop have loop': "started (main ?stod ?args)
      \<and> loop_freq (main ?stod ?args) = 4294967246
      \<and> loop_dt (main ?stod ?args) = Dt (1 / 4294967246)"
    by (simp only: w dtv)
  from usage code hyp loop' show ?thesis by blast
qed

subsection \<open>C4: no output before both deliveries\<close>

text \<open>
  C4. From the initial state, whatever the number of ticks: a run in which no reading is
  delivered, or no target, sends nothing. And when one reading and one target have been
  delivered, in either order, with ticks and rejected envelopes before and between
  them, the tick that follows the second delivery sends one message, whose acceleration
  is the control value computed from the delivered reading and target with
  \<^verbatim>\<open>integral\<close> and \<^verbatim>\<open>prevError\<close> at 0.
\<close>

theorem output_waits_for_both_deliveries:
  "(((\<forall>e\<in>set es. \<not> accepted_reading c e) \<or> (\<forall>e\<in>set es. \<not> accepted_request c e)) \<longrightarrow>
      snd (run cast c dt (initial reading0 target0) es) = [])
   \<and> ((\<forall>e\<in>set es1 \<union> set es2. \<not> accepted_reading c e \<and> \<not> accepted_request c e)
       \<and> senderStamp rd = inputSenderId c \<and> senderStamp rq = controlSenderId c
       \<and> ((m1 = GroundSpeedReading rd \<and> m2 = GroundSpeedRequest rq)
          \<or> (m1 = GroundSpeedRequest rq \<and> m2 = GroundSpeedReading rd)) \<longrightarrow>
      snd (run cast c dt (initial reading0 target0)
             (es1 @ [m1] @ es2 @ [m2] @ [TimeTrigger])) =
        [(\<lparr>acceleration =
             cast (control_of c dt (delivered (groundSpeed rd) (groundSpeed rq))),
           steering = 0, isValid = True\<rparr>, outputSenderId c)])"
proof (intro conjI impI)
  assume "(\<forall>e\<in>set es. \<not> accepted_reading c e) \<or> (\<forall>e\<in>set es. \<not> accepted_request c e)"
  then show "snd (run cast c dt (initial reading0 target0) es) = []"
    using run_without_reading [of "initial reading0 target0" es c cast dt]
      run_without_request [of "initial reading0 target0" es c cast dt]
    by (auto simp: initial_def)
next
  assume h: "(\<forall>e\<in>set es1 \<union> set es2. \<not> accepted_reading c e \<and> \<not> accepted_request c e)
       \<and> senderStamp rd = inputSenderId c \<and> senderStamp rq = controlSenderId c
       \<and> ((m1 = GroundSpeedReading rd \<and> m2 = GroundSpeedRequest rq)
          \<or> (m1 = GroundSpeedRequest rq \<and> m2 = GroundSpeedReading rd))"
  then have "run cast c dt (initial reading0 target0)
               (es1 @ [m1] @ es2 @ [m2] @ [TimeTrigger]) =
             atFrequency cast c dt (delivered (groundSpeed rd) (groundSpeed rq))"
    by (intro first_tick_after_both) blast+
  then show "snd (run cast c dt (initial reading0 target0)
             (es1 @ [m1] @ es2 @ [m2] @ [TimeTrigger])) =
        [(\<lparr>acceleration =
             cast (control_of c dt (delivered (groundSpeed rd) (groundSpeed rq))),
           steering = 0, isValid = True\<rparr>, outputSenderId c)]"
    by (simp add: atFrequency_ready delivered_def)
qed

text \<open>Three ticks and a reading but no target: nothing is sent. Then a tick, a target of
  12, a tick, a reading from another sender, a reading of 10 and a tick: one message, with
  the acceleration \<open>1 * (12 - 10)\<close>.\<close>

theorem output_waits_for_both_deliveries_witness:
  "(list_all (\<lambda>e. \<not> accepted_request (defaults\<lparr>hasP := True, p := 1\<rparr>) e)
      [TimeTrigger, GroundSpeedReading \<lparr>senderStamp = 0, groundSpeed = 10\<rparr>,
       TimeTrigger, TimeTrigger]
    \<and> snd (run id (defaults\<lparr>hasP := True, p := 1\<rparr>) (1 / 50) (initial 0 0)
         [TimeTrigger, GroundSpeedReading \<lparr>senderStamp = 0, groundSpeed = 10\<rparr>,
          TimeTrigger, TimeTrigger]) = [])
   \<and> (list_all (\<lambda>e. \<not> accepted_reading (defaults\<lparr>hasP := True, p := 1\<rparr>) e
                      \<and> \<not> accepted_request (defaults\<lparr>hasP := True, p := 1\<rparr>) e)
         ([TimeTrigger]
          @ [TimeTrigger, GroundSpeedReading \<lparr>senderStamp = 7, groundSpeed = 99\<rparr>])
       \<and> senderStamp \<lparr>senderStamp = 0, groundSpeed = 10\<rparr>
           = inputSenderId (defaults\<lparr>hasP := True, p := 1\<rparr>)
       \<and> senderStamp \<lparr>senderStamp = 0, groundSpeed = 12\<rparr>
           = controlSenderId (defaults\<lparr>hasP := True, p := 1\<rparr>)
       \<and> snd (run id (defaults\<lparr>hasP := True, p := 1\<rparr>) (1 / 50) (initial 0 0)
            ([TimeTrigger] @ [GroundSpeedRequest \<lparr>senderStamp = 0, groundSpeed = 12\<rparr>]
             @ [TimeTrigger, GroundSpeedReading \<lparr>senderStamp = 7, groundSpeed = 99\<rparr>]
             @ [GroundSpeedReading \<lparr>senderStamp = 0, groundSpeed = 10\<rparr>]
             @ [TimeTrigger]))
          = [(\<lparr>acceleration = 2, steering = 0, isValid = True\<rparr>, 0)])"
proof -
  let ?c = "defaults\<lparr>hasP := True, p := 1\<rparr>"
  have first: "snd (run id ?c (1 / 50) (initial 0 0)
         [TimeTrigger, GroundSpeedReading \<lparr>senderStamp = 0, groundSpeed = 10\<rparr>,
          TimeTrigger, TimeTrigger]) = []"
    using output_waits_for_both_deliveries
      [where es = "[TimeTrigger, GroundSpeedReading \<lparr>senderStamp = 0, groundSpeed = 10\<rparr>,
                    TimeTrigger, TimeTrigger]"
         and c = ?c and cast = id and dt = "1 / 50" and ?reading0.0 = 0 and ?target0.0 = 0]
    by (simp add: accepted_request_def del: run.simps)
  have second: "snd (run id ?c (1 / 50) (initial 0 0)
            ([TimeTrigger] @ [GroundSpeedRequest \<lparr>senderStamp = 0, groundSpeed = 12\<rparr>]
             @ [TimeTrigger, GroundSpeedReading \<lparr>senderStamp = 7, groundSpeed = 99\<rparr>]
             @ [GroundSpeedReading \<lparr>senderStamp = 0, groundSpeed = 10\<rparr>]
             @ [TimeTrigger]))
          = [(\<lparr>acceleration = 2, steering = 0, isValid = True\<rparr>, 0)]"
    using output_waits_for_both_deliveries
      [where es = "[]" and c = ?c and cast = id and dt = "1 / 50"
         and ?reading0.0 = 0 and ?target0.0 = 0
         and ?es1.0 = "[TimeTrigger]"
         and ?es2.0 = "[TimeTrigger, GroundSpeedReading \<lparr>senderStamp = 7, groundSpeed = 99\<rparr>]"
         and rd = "\<lparr>senderStamp = 0, groundSpeed = 10\<rparr>"
         and rq = "\<lparr>senderStamp = 0, groundSpeed = 12\<rparr>"
         and ?m1.0 = "GroundSpeedRequest \<lparr>senderStamp = 0, groundSpeed = 12\<rparr>"
         and ?m2.0 = "GroundSpeedReading \<lparr>senderStamp = 0, groundSpeed = 10\<rparr>"]
    by (simp add: accepted_reading_def accepted_request_def defaults_def delivered_def
          control_of_def pid_def i_term_def d_term_def p_term_def error_of_def
          limit_min_def limit_max_def del: run.simps)
  show ?thesis
    using first second
    by (simp add: accepted_reading_def accepted_request_def defaults_def del: run.simps)
qed

subsection \<open>C5: the integral limit\<close>

text \<open>
  C5. On a ready tick with the I term enabled and an integral limit \<open>L \<ge> 0\<close>
  configured, let \<open>acc\<close> be the accumulator after line 166. After the tick
  \<open>- L \<le> integral \<le> L\<close>; when \<open>\<bar>acc\<bar> > L\<close> the accumulator is \<open>L\<close> for a positive
  \<open>acc\<close> and \<open>- L\<close> otherwise; when \<open>\<bar>acc\<bar> \<le> L\<close> it is \<open>acc\<close>.
\<close>

theorem integral_within_limit:
  "hasReading s \<Longrightarrow> hasTarget s \<Longrightarrow> hasI c \<Longrightarrow> hasILimit c \<Longrightarrow> 0 \<le> iLimit c \<Longrightarrow>
     (let acc = integral s + (target s - reading s) * dt;
          integral' = integral (fst (atFrequency cast c dt s))
      in - iLimit c \<le> integral' \<and> integral' \<le> iLimit c
         \<and> (\<bar>acc\<bar> > iLimit c \<longrightarrow> integral' = (if acc > 0 then iLimit c else - iLimit c))
         \<and> (\<bar>acc\<bar> \<le> iLimit c \<longrightarrow> integral' = acc))"
  by (simp add: atFrequency_ready pid_integral_enabled limit_integral_def accumulate_def
        error_of_def Let_def)

text \<open>Limit 3, period 1, reading 7 and target 2: the accumulator \<open>- 5\<close> becomes
  \<open>- 3\<close>.\<close>

theorem integral_within_limit_witness:
  "hasReading (delivered 7 2) \<and> hasTarget (delivered 7 2)
   \<and> hasI (defaults\<lparr>hasI := True, i := 1, hasILimit := True, iLimit := 3\<rparr>)
   \<and> hasILimit (defaults\<lparr>hasI := True, i := 1, hasILimit := True, iLimit := 3\<rparr>)
   \<and> 0 \<le> iLimit (defaults\<lparr>hasI := True, i := 1, hasILimit := True, iLimit := 3\<rparr>)
   \<and> integral (delivered 7 2) + (target (delivered 7 2) - reading (delivered 7 2)) * 1 = - 5
   \<and> integral (fst (atFrequency id
        (defaults\<lparr>hasI := True, i := 1, hasILimit := True, iLimit := 3\<rparr>) 1
        (delivered 7 2))) = - 3"
  using integral_within_limit
    [of "delivered 7 2" "defaults\<lparr>hasI := True, i := 1, hasILimit := True, iLimit := 3\<rparr>"
        1 id]
  by (simp add: delivered_def defaults_def Let_def)

subsection \<open>C6: the output minimum\<close>

text \<open>
  C6. The claim: on a ready tick with an output minimum \<open>m\<close> configured, a control value
  below \<open>m\<close> after the three terms makes the tick send exactly \<open>m\<close>. Lines 181-183
  then compare the clamped value with the maximum by \<^verbatim>\<open><\<close>, so a maximum above \<open>m\<close>
  replaces it. Evaluated with gain 1, minimum 0, maximum 5, reading 1 and target 0: the
  three terms give \<open>- 1\<close>, which is below the minimum 0, and the tick sends 5.
\<close>

theorem output_floor_raised_to_max:
  "snd (pid (defaults\<lparr>hasP := True, p := 1, hasOutputLimitMin := True, outputLimitMin := 0,
                      hasOutputLimitMax := True, outputLimitMax := 5\<rparr>)
          (1 / 50) (delivered 1 0)) = - 1
   \<and> run id
        (defaults\<lparr>hasP := True, p := 1, hasOutputLimitMin := True, outputLimitMin := 0,
                  hasOutputLimitMax := True, outputLimitMax := 5\<rparr>)
        (1 / 50) (initial 0 0)
        [GroundSpeedReading \<lparr>senderStamp = 0, groundSpeed = 1\<rparr>,
         GroundSpeedRequest \<lparr>senderStamp = 0, groundSpeed = 0\<rparr>,
         TimeTrigger]
      = (delivered 1 0, [(\<lparr>acceleration = 5, steering = 0, isValid = True\<rparr>, 0)])"
  by (simp add: tick_simps defaults_def delivered_def initial_def)

subsection \<open>C7: the P term alone\<close>

text \<open>
  C7. On a ready tick with the P term enabled (gain \<open>p\<close>), the D and I terms disabled
  and no output limit configured, the control value is \<open>p * (target - reading)\<close>, the
  integral accumulator keeps its value (the whole state does), and the one message sent
  carries that control value.
\<close>

theorem p_only_tick:
  "hasReading s \<Longrightarrow> hasTarget s \<Longrightarrow> hasP c \<Longrightarrow> \<not> hasD c \<Longrightarrow> \<not> hasI c \<Longrightarrow>
   \<not> hasOutputLimitMin c \<Longrightarrow> \<not> hasOutputLimitMax c \<Longrightarrow>
     control_of c dt s = p c * (target s - reading s)
     \<and> integral (fst (atFrequency cast c dt s)) = integral s
     \<and> atFrequency cast c dt s =
         (s, [(\<lparr>acceleration = cast (p c * (target s - reading s)), steering = 0,
                 isValid = True\<rparr>, outputSenderId c)])"
  by (simp add: atFrequency_ready pid_integral_disabled control_of_def limit_max_def
        limit_min_def pid_def i_term_def d_term_def p_term_def error_of_def)

text \<open>Gain 2, reading 10, target 13: the control value is 6.\<close>

theorem p_only_tick_witness:
  "hasReading (delivered 10 13) \<and> hasTarget (delivered 10 13)
   \<and> hasP (defaults\<lparr>hasP := True, p := 2\<rparr>) \<and> \<not> hasD (defaults\<lparr>hasP := True, p := 2\<rparr>)
   \<and> \<not> hasI (defaults\<lparr>hasP := True, p := 2\<rparr>)
   \<and> \<not> hasOutputLimitMin (defaults\<lparr>hasP := True, p := 2\<rparr>)
   \<and> \<not> hasOutputLimitMax (defaults\<lparr>hasP := True, p := 2\<rparr>)
   \<and> control_of (defaults\<lparr>hasP := True, p := 2\<rparr>) (1 / 50) (delivered 10 13) = 6
   \<and> atFrequency id (defaults\<lparr>hasP := True, p := 2\<rparr>) (1 / 50) (delivered 10 13) =
        (delivered 10 13, [(\<lparr>acceleration = 6, steering = 0, isValid = True\<rparr>, 0)])"
  using p_only_tick [of "delivered 10 13" "defaults\<lparr>hasP := True, p := 2\<rparr>" "1 / 50" id]
  by (simp add: delivered_def defaults_def)

subsection \<open>C8: the message of a ready tick\<close>

text \<open>
  C8. A ready tick sends exactly one message: its acceleration is the control value
  converted to \<^verbatim>\<open>float\<close>, its steering is 0 and its valid flag is true. In
  particular, if \<^verbatim>\<open>std::stod\<close> converts the text \<^verbatim>\<open>1.0\<close> to 1 and the conversion to
  \<^verbatim>\<open>float\<close> maps 2 to 2, then \<^verbatim>\<open>--cid=111 --freq=50 --p=1.0\<close> starts the loop with
  gain 1, no other term or limit and \<^verbatim>\<open>dt = 1 / 50\<close>, and after a reading of 10 and a
  target of 12 the first tick sends acceleration 2, steering 0, valid.
\<close>

theorem ready_tick_sends_one_request:
  "(hasReading s \<and> hasTarget s \<longrightarrow>
      snd (atFrequency cast c dt s) =
        [(\<lparr>acceleration = cast (control_of c dt s), steering = 0, isValid = True\<rparr>,
          outputSenderId c)])
   \<and> (stod ''1.0'' = Inr 1 \<and> cast 2 = 2 \<longrightarrow>
        main stod [''cid'' \<mapsto> ''111'', ''freq'' \<mapsto> ''50'', ''p'' \<mapsto> ''1.0'']
          = Started 111 50 (defaults\<lparr>hasP := True, p := 1\<rparr>) (Dt (1 / 50))
        \<and> snd (run cast (defaults\<lparr>hasP := True, p := 1\<rparr>) (1 / 50)
                 (initial reading0 target0)
                 [GroundSpeedReading \<lparr>senderStamp = 0, groundSpeed = 10\<rparr>,
                  GroundSpeedRequest \<lparr>senderStamp = 0, groundSpeed = 12\<rparr>,
                  TimeTrigger])
            = [(\<lparr>acceleration = 2, steering = 0, isValid = True\<rparr>, 0)])"
proof (intro conjI impI)
  assume "hasReading s \<and> hasTarget s"
  then show "snd (atFrequency cast c dt s) =
        [(\<lparr>acceleration = cast (control_of c dt s), steering = 0, isValid = True\<rparr>,
          outputSenderId c)]"
    by (simp add: atFrequency_ready)
next
  assume h: "stod ''1.0'' = Inr 1 \<and> cast 2 = 2"
  have u: "unat (50 :: 32 word) = 50" by simp
  from h show "main stod [''cid'' \<mapsto> ''111'', ''freq'' \<mapsto> ''50'', ''p'' \<mapsto> ''1.0'']
          = Started 111 50 (defaults\<lparr>hasP := True, p := 1\<rparr>) (Dt (1 / 50))"
    by (simp add: main_def or_throw_def sender_id_def gain_def dt_of_def stoi_simps
          defaults_def u)
next
  assume h: "stod ''1.0'' = Inr 1 \<and> cast 2 = 2"
  then show "snd (run cast (defaults\<lparr>hasP := True, p := 1\<rparr>) (1 / 50)
                 (initial reading0 target0)
                 [GroundSpeedReading \<lparr>senderStamp = 0, groundSpeed = 10\<rparr>,
                  GroundSpeedRequest \<lparr>senderStamp = 0, groundSpeed = 12\<rparr>,
                  TimeTrigger])
            = [(\<lparr>acceleration = 2, steering = 0, isValid = True\<rparr>, 0)]"
    by (simp add: tick_simps defaults_def initial_def)
qed

text \<open>The same scenario with a \<^verbatim>\<open>std::stod\<close> that knows the text \<^verbatim>\<open>1.0\<close> only.\<close>

theorem ready_tick_sends_one_request_witness:
  "hasReading (delivered 10 12) \<and> hasTarget (delivered 10 12)
   \<and> snd (atFrequency id (defaults\<lparr>hasP := True, p := 1\<rparr>) (1 / 50) (delivered 10 12)) =
        [(\<lparr>acceleration = 2, steering = 0, isValid = True\<rparr>, 0)]
   \<and> (\<lambda>str. if str = ''1.0'' then Inr 1 else Inl invalid_argument) ''1.0'' = Inr (1 :: real)
   \<and> id (2 :: real) = 2
   \<and> main (\<lambda>str. if str = ''1.0'' then Inr 1 else Inl invalid_argument)
        [''cid'' \<mapsto> ''111'', ''freq'' \<mapsto> ''50'', ''p'' \<mapsto> ''1.0'']
      = Started 111 50 (defaults\<lparr>hasP := True, p := 1\<rparr>) (Dt (1 / 50))
   \<and> snd (run id (defaults\<lparr>hasP := True, p := 1\<rparr>) (1 / 50) (initial 0 0)
            [GroundSpeedReading \<lparr>senderStamp = 0, groundSpeed = 10\<rparr>,
             GroundSpeedRequest \<lparr>senderStamp = 0, groundSpeed = 12\<rparr>,
             TimeTrigger])
      = [(\<lparr>acceleration = 2, steering = 0, isValid = True\<rparr>, 0)]"
  using ready_tick_sends_one_request
    [where s = "delivered 10 12" and cast = id and c = "defaults\<lparr>hasP := True, p := 1\<rparr>"
       and dt = "1 / 50" and ?reading0.0 = 0 and ?target0.0 = 0
       and stod = "\<lambda>str. if str = ''1.0'' then Inr 1 else Inl invalid_argument"]
  by (simp add: delivered_def defaults_def control_of_def pid_def i_term_def d_term_def
        p_term_def error_of_def limit_min_def limit_max_def del: run.simps)

subsection \<open>C9: the maximum as a lower bound\<close>

text \<open>
  C9. On a ready tick with an output maximum configured, whether or not an output minimum
  is configured, the control value that is sent is at least \<open>outputLimitMax\<close>: it is
  the larger of \<open>outputLimitMax\<close> and the value after the minimum clamp, so a value at
  or above the maximum is sent as it is and the maximum is no upper bound. The message
  carries the conversion of that control value to \<^verbatim>\<open>float\<close>; when the conversion is
  monotone the acceleration is at least the converted maximum, and at least
  \<open>outputLimitMax\<close> itself when the conversion leaves the maximum as it is. The same
  bound holds for every message of every run.
\<close>

theorem published_control_at_least_max:
  "(hasReading s \<and> hasTarget s \<and> hasOutputLimitMax c \<longrightarrow>
      outputLimitMax c \<le> control_of c dt s
      \<and> control_of c dt s = max (outputLimitMax c) (limit_min c (snd (pid c dt s)))
      \<and> (outputLimitMax c \<le> limit_min c (snd (pid c dt s)) \<longrightarrow>
           control_of c dt s = limit_min c (snd (pid c dt s)))
      \<and> snd (atFrequency cast c dt s) =
          [(\<lparr>acceleration = cast (control_of c dt s), steering = 0, isValid = True\<rparr>,
            outputSenderId c)]
      \<and> (mono cast \<longrightarrow> cast (outputLimitMax c) \<le> cast (control_of c dt s))
      \<and> (mono cast \<and> cast (outputLimitMax c) = outputLimitMax c \<longrightarrow>
           outputLimitMax c \<le> cast (control_of c dt s)))
   \<and> (hasOutputLimitMax c \<and> mono cast \<longrightarrow>
        (\<forall>m\<in>set (snd (run cast c dt s0 es)).
           cast (outputLimitMax c) \<le> acceleration (fst m)))"
proof (intro conjI impI)
  assume ready: "hasReading s \<and> hasTarget s \<and> hasOutputLimitMax c"
  then show lower: "outputLimitMax c \<le> control_of c dt s"
    by (simp add: control_of_def limit_max_lower)
  from ready show "control_of c dt s = max (outputLimitMax c) (limit_min c (snd (pid c dt s)))"
    by (simp add: control_of_def limit_max_is_max)
  from ready show "snd (atFrequency cast c dt s) =
          [(\<lparr>acceleration = cast (control_of c dt s), steering = 0, isValid = True\<rparr>,
            outputSenderId c)]"
    by (simp add: atFrequency_ready)
  {
    assume "outputLimitMax c \<le> limit_min c (snd (pid c dt s))"
    with ready show "control_of c dt s = limit_min c (snd (pid c dt s))"
      by (simp add: control_of_def limit_max_def)
  }
  {
    assume "mono cast"
    then show "cast (outputLimitMax c) \<le> cast (control_of c dt s)"
      using lower by (rule monoD)
  }
  {
    assume "mono cast \<and> cast (outputLimitMax c) = outputLimitMax c"
    then have "mono cast" and eq: "cast (outputLimitMax c) = outputLimitMax c" by simp_all
    from \<open>mono cast\<close> lower have "cast (outputLimitMax c) \<le> cast (control_of c dt s)"
      by (rule monoD)
    with eq show "outputLimitMax c \<le> cast (control_of c dt s)" by simp
  }
next
  assume "hasOutputLimitMax c \<and> mono cast"
  then show "\<forall>m\<in>set (snd (run cast c dt s0 es)).
           cast (outputLimitMax c) \<le> acceleration (fst m)"
    using run_sent_at_least_max [of c cast dt s0 es] by simp
qed

text \<open>Two ticks and a run, with the identity as conversion. Gain 4, minimum \<open>- 2\<close>,
  maximum 2, reading 3 and target 1: the three terms give \<open>- 8\<close>, the minimum makes it
  \<open>- 2\<close>, and 2 is sent. Gain 1, maximum 5, no minimum, reading 0 and target 7: the
  control value 7 is above the maximum and 7 is sent. In the run the targets 7 and then 1
  make the two ticks send 7 and 5.\<close>

theorem published_control_at_least_max_witness:
  "hasReading (delivered 3 1) \<and> hasTarget (delivered 3 1)
   \<and> hasOutputLimitMax
       (defaults\<lparr>hasP := True, p := 4, hasOutputLimitMin := True, outputLimitMin := - 2,
                 hasOutputLimitMax := True, outputLimitMax := 2\<rparr>)
   \<and> mono (id :: real \<Rightarrow> real)
   \<and> id (2 :: real) = 2
   \<and> limit_min
       (defaults\<lparr>hasP := True, p := 4, hasOutputLimitMin := True, outputLimitMin := - 2,
                 hasOutputLimitMax := True, outputLimitMax := 2\<rparr>)
       (snd (pid
          (defaults\<lparr>hasP := True, p := 4, hasOutputLimitMin := True, outputLimitMin := - 2,
                    hasOutputLimitMax := True, outputLimitMax := 2\<rparr>)
          (1 / 50) (delivered 3 1))) = - 2
   \<and> control_of
       (defaults\<lparr>hasP := True, p := 4, hasOutputLimitMin := True, outputLimitMin := - 2,
                 hasOutputLimitMax := True, outputLimitMax := 2\<rparr>)
       (1 / 50) (delivered 3 1) = 2
   \<and> snd (atFrequency id
       (defaults\<lparr>hasP := True, p := 4, hasOutputLimitMin := True, outputLimitMin := - 2,
                 hasOutputLimitMax := True, outputLimitMax := 2\<rparr>)
       (1 / 50) (delivered 3 1)) =
       [(\<lparr>acceleration = 2, steering = 0, isValid = True\<rparr>, 0)]
   \<and> hasReading (delivered 0 7) \<and> hasTarget (delivered 0 7)
   \<and> hasOutputLimitMax
       (defaults\<lparr>hasP := True, p := 1, hasOutputLimitMax := True, outputLimitMax := 5\<rparr>)
   \<and> outputLimitMax
       (defaults\<lparr>hasP := True, p := 1, hasOutputLimitMax := True, outputLimitMax := 5\<rparr>)
      \<le> limit_min
       (defaults\<lparr>hasP := True, p := 1, hasOutputLimitMax := True, outputLimitMax := 5\<rparr>)
       (snd (pid
          (defaults\<lparr>hasP := True, p := 1, hasOutputLimitMax := True, outputLimitMax := 5\<rparr>)
          (1 / 50) (delivered 0 7)))
   \<and> control_of
       (defaults\<lparr>hasP := True, p := 1, hasOutputLimitMax := True, outputLimitMax := 5\<rparr>)
       (1 / 50) (delivered 0 7) = 7
   \<and> snd (atFrequency id
       (defaults\<lparr>hasP := True, p := 1, hasOutputLimitMax := True, outputLimitMax := 5\<rparr>)
       (1 / 50) (delivered 0 7)) =
       [(\<lparr>acceleration = 7, steering = 0, isValid = True\<rparr>, 0)]
   \<and> snd (run id
       (defaults\<lparr>hasP := True, p := 1, hasOutputLimitMax := True, outputLimitMax := 5\<rparr>)
       (1 / 50) (initial 0 0)
       [GroundSpeedReading \<lparr>senderStamp = 0, groundSpeed = 0\<rparr>,
        GroundSpeedRequest \<lparr>senderStamp = 0, groundSpeed = 7\<rparr>,
        TimeTrigger,
        GroundSpeedRequest \<lparr>senderStamp = 0, groundSpeed = 1\<rparr>,
        TimeTrigger]) =
       [(\<lparr>acceleration = 7, steering = 0, isValid = True\<rparr>, 0),
        (\<lparr>acceleration = 5, steering = 0, isValid = True\<rparr>, 0)]
   \<and> list_all (\<lambda>m. id (5 :: real) \<le> acceleration (fst m))
       (snd (run id
          (defaults\<lparr>hasP := True, p := 1, hasOutputLimitMax := True, outputLimitMax := 5\<rparr>)
          (1 / 50) (initial 0 0)
          [GroundSpeedReading \<lparr>senderStamp = 0, groundSpeed = 0\<rparr>,
           GroundSpeedRequest \<lparr>senderStamp = 0, groundSpeed = 7\<rparr>,
           TimeTrigger,
           GroundSpeedRequest \<lparr>senderStamp = 0, groundSpeed = 1\<rparr>,
           TimeTrigger]))"
proof -
  let ?c1 = "defaults\<lparr>hasP := True, p := 4, hasOutputLimitMin := True, outputLimitMin := - 2,
                       hasOutputLimitMax := True, outputLimitMax := 2\<rparr>"
  let ?c2 = "defaults\<lparr>hasP := True, p := 1, hasOutputLimitMax := True, outputLimitMax := 5\<rparr>"
  let ?es = "[GroundSpeedReading \<lparr>senderStamp = 0, groundSpeed = 0\<rparr>,
              GroundSpeedRequest \<lparr>senderStamp = 0, groundSpeed = 7\<rparr>,
              TimeTrigger,
              GroundSpeedRequest \<lparr>senderStamp = 0, groundSpeed = 1\<rparr>,
              TimeTrigger]"
  have monotone: "mono (id :: real \<Rightarrow> real)" by (simp add: mono_def)
  have ready1: "hasReading (delivered 3 1) \<and> hasTarget (delivered 3 1) \<and> hasOutputLimitMax ?c1"
    by (simp add: delivered_def defaults_def)
  have ready2: "hasReading (delivered 0 7) \<and> hasTarget (delivered 0 7) \<and> hasOutputLimitMax ?c2"
    by (simp add: delivered_def defaults_def)
  have min1: "limit_min ?c1 (snd (pid ?c1 (1 / 50) (delivered 3 1))) = - 2"
    by (simp add: delivered_def defaults_def pid_def i_term_def d_term_def p_term_def
          error_of_def limit_min_def)
  have min2: "limit_min ?c2 (snd (pid ?c2 (1 / 50) (delivered 0 7))) = 7"
    by (simp add: delivered_def defaults_def pid_def i_term_def d_term_def p_term_def
          error_of_def limit_min_def)
  have max1: "outputLimitMax ?c1 = 2" and max2: "outputLimitMax ?c2 = 5"
    and out1: "outputSenderId ?c1 = 0" and out2: "outputSenderId ?c2 = 0"
    by (simp_all add: defaults_def)
  note tick1 = published_control_at_least_max
    [where s = "delivered 3 1" and c = ?c1 and dt = "1 / 50" and cast = id,
     THEN conjunct1, THEN mp, OF ready1]
  note tick2 = published_control_at_least_max
    [where s = "delivered 0 7" and c = ?c2 and dt = "1 / 50" and cast = id,
     THEN conjunct1, THEN mp, OF ready2]
  from tick1 have ctl1: "control_of ?c1 (1 / 50) (delivered 3 1) = 2"
    by (simp add: min1 max1)
  from tick1 have sent1: "snd (atFrequency id ?c1 (1 / 50) (delivered 3 1)) =
      [(\<lparr>acceleration = 2, steering = 0, isValid = True\<rparr>, 0)]"
    by (simp add: ctl1 out1 id_apply)
  from tick2 have ctl2: "control_of ?c2 (1 / 50) (delivered 0 7) = 7"
    by (simp add: min2 max2)
  from tick2 have sent2: "snd (atFrequency id ?c2 (1 / 50) (delivered 0 7)) =
      [(\<lparr>acceleration = 7, steering = 0, isValid = True\<rparr>, 0)]"
    by (simp add: ctl2 out2 id_apply)
  have bound2: "outputLimitMax ?c2 \<le> limit_min ?c2 (snd (pid ?c2 (1 / 50) (delivered 0 7)))"
    by (simp add: min2 max2)
  have sent: "snd (run id ?c2 (1 / 50) (initial 0 0) ?es) =
      [(\<lparr>acceleration = 7, steering = 0, isValid = True\<rparr>, 0),
       (\<lparr>acceleration = 5, steering = 0, isValid = True\<rparr>, 0)]"
    by (simp add: tick_simps defaults_def initial_def)
  have "hasOutputLimitMax ?c2 \<and> mono (id :: real \<Rightarrow> real)"
    using ready2 monotone by simp
  from published_control_at_least_max
    [where c = ?c2 and dt = "1 / 50" and cast = id and ?s0.0 = "initial 0 0" and es = ?es,
     THEN conjunct2, THEN mp, OF this]
  have every: "list_all (\<lambda>m. id (5 :: real) \<le> acceleration (fst m))
      (snd (run id ?c2 (1 / 50) (initial 0 0) ?es))"
    by (simp only: max2 list_all_iff)
  from ready1 ready2 monotone min1 ctl1 sent1 bound2 ctl2 sent2 sent every
  show ?thesis by simp
qed

subsection \<open>C10: a tick that is not ready\<close>

text \<open>
  C10. A tick before both the reading and the target have been set returns the state as
  it was, so \<^verbatim>\<open>integral\<close> and \<^verbatim>\<open>prevError\<close> keep their values, and sends nothing.
\<close>

theorem tick_not_ready_is_noop:
  "\<not> hasReading s \<or> \<not> hasTarget s \<Longrightarrow>
     atFrequency cast c dt s = (s, [])
     \<and> integral (fst (atFrequency cast c dt s)) = integral s
     \<and> prevError (fst (atFrequency cast c dt s)) = prevError s
     \<and> snd (atFrequency cast c dt s) = []"
  by (simp add: atFrequency_def)

text \<open>A state with a reading and no target, an accumulated integral of 3, a D and an I
  term enabled: the tick changes nothing.\<close>

theorem tick_not_ready_is_noop_witness:
  "\<not> hasTarget \<lparr>integral = 3, prevError = 0, hasReading = True, reading = 10,
                  hasTarget = False, target = 0\<rparr>
   \<and> atFrequency id (defaults\<lparr>hasD := True, d := 1, hasI := True, i := 1\<rparr>) (1 / 50)
        \<lparr>integral = 3, prevError = 0, hasReading = True, reading = 10,
         hasTarget = False, target = 0\<rparr>
      = (\<lparr>integral = 3, prevError = 0, hasReading = True, reading = 10,
          hasTarget = False, target = 0\<rparr>, [])"
  using tick_not_ready_is_noop
    [of "\<lparr>integral = 3, prevError = 0, hasReading = True, reading = 10,
          hasTarget = False, target = 0\<rparr>"
        id "defaults\<lparr>hasD := True, d := 1, hasI := True, i := 1\<rparr>" "1 / 50"]
  by simp

end
